theory Spec2Isabelle
  imports Main
begin

chapter \<open>Clortho: license keys, checks and rate limits\<close>

text \<open>
  A model of the core of the Clortho license server: the charset parser and the key
  generator, the resolution of generation settings, the license check with its signed
  token, and the rate-limit middleware. Each function is a translation of the Go function
  of the same name; stores, clock, randomness and library packages are inputs.
\<close>

section \<open>Strings and bytes\<close>

text \<open>
  A Go \<open>string\<close> is a sequence of bytes; \<open>len\<close> counts bytes and \<open>s[i]\<close> reads one byte.
  It is modelled as \<^typ>\<open>string\<close>, a list of 8-bit \<^typ>\<open>char\<close>s. The numeric value of a
  byte is \<open>of_char c :: nat\<close>, below 256; byte arithmetic wraps around modulo 256.
\<close>

definition byte_val :: "char \<Rightarrow> nat" where
  "byte_val c = of_char c"

definition byte_succ :: "char \<Rightarrow> char" where
  \<comment> \<open>\<open>i++\<close> on a \<open>byte\<close>: 255 wraps to 0.\<close>
  "byte_succ c = char_of ((byte_val c + 1) mod 256)"

fun Split :: "string \<Rightarrow> char \<Rightarrow> string list" where
  \<comment> \<open>\<open>strings.Split(s, sep)\<close> for a one-byte separator.\<close>
  "Split [] sep = [[]]"
| "Split (c # cs) sep =
     (if c = sep then [] # Split cs sep
      else (case Split cs sep of [] \<Rightarrow> [[c]] | p # ps \<Rightarrow> (c # p) # ps))"

fun HasSuffix :: "string \<Rightarrow> string \<Rightarrow> bool" where
  \<comment> \<open>\<open>strings.HasSuffix\<close>.\<close>
  "HasSuffix s suffix =
     (length suffix \<le> length s \<and> drop (length s - length suffix) s = suffix)"

section \<open>Charset parser and key generator (internal/service/license\_generator.go)\<close>

definition defaultCharset :: string where
  "defaultCharset = ''abcdefghijklmnopqrstuvwxyzABCDEFGHIJKLMNOPQRSTUVWXYZ0123456789''"

datatype charset_error = InvalidRange string
  \<comment> \<open>\<open>fmt.Errorf("invalid range: %s", part)\<close>\<close>

text \<open>
  The inner loop \<open>for i := start; i <= end; i++ { builder.WriteByte(i) }\<close> runs on a
  \<open>byte\<close> counter. A result \<open>None\<close> means that the loop does not return.
\<close>

partial_function (option) writeRange :: "char \<Rightarrow> char \<Rightarrow> string \<Rightarrow> string option" where
  "writeRange i endc builder =
     (if byte_val i \<le> byte_val endc
      then writeRange (byte_succ i) endc (builder @ [i])
      else Some builder)"

declare writeRange.simps [code]

fun parseParts :: "string list \<Rightarrow> string \<Rightarrow> (charset_error + string) option" where
  \<comment> \<open>The loop \<open>for _, part := range parts\<close> with the builder passed along.\<close>
  "parseParts [] builder = Some (Inr builder)"
| "parseParts (part # parts) builder =
     (if length part = 3 \<and> part ! 1 = CHR ''-'' then
        (let start = part ! 0; endc = part ! 2 in
         if byte_val start > byte_val endc then Some (Inl (InvalidRange part))
         else (case writeRange start endc builder of
                 None \<Rightarrow> None
               | Some builder' \<Rightarrow> parseParts parts builder'))
      else parseParts parts (builder @ part))"

definition ParseCharset :: "string \<Rightarrow> (charset_error + string) option" where
  "ParseCharset input =
     (if input = [] then Some (Inr defaultCharset)
      else parseParts (Split input CHR '','') [])"

datatype rand_error = RandomSourceError

text \<open>
  The secure random source is an input of the model: \<open>src i\<close> is what the \<open>i\<close>-th read of
  \<open>rand.Reader\<close> gives, an error or raw entropy. \<open>rand.Int(rand.Reader, max)\<close> returns a
  value in \<open>[0, max)\<close>, which is the entropy reduced to that range. (It panics for
  \<open>max \<le> 0\<close>; the key generator calls it with the length of a non-empty charset.)
\<close>

type_synonym rand_source = "nat \<Rightarrow> rand_error + nat"

definition rand_Int :: "rand_source \<Rightarrow> nat \<Rightarrow> nat \<Rightarrow> rand_error + nat" where
  "rand_Int src i bound =
     (case src i of Inl err \<Rightarrow> Inl err | Inr raw \<Rightarrow> Inr (raw mod bound))"

fun fillBytes :: "rand_source \<Rightarrow> string \<Rightarrow> nat \<Rightarrow> nat \<Rightarrow> rand_error + string" where
  \<comment> \<open>The loop \<open>for i := range b\<close>: \<open>fillBytes src cs i n\<close> fills positions \<open>i, ..., i + n - 1\<close>.\<close>
  "fillBytes src usedCharset i 0 = Inr []"
| "fillBytes src usedCharset i (Suc n) =
     (case rand_Int src i (length usedCharset) of
        Inl err \<Rightarrow> Inl err
      | Inr num \<Rightarrow>
          (case fillBytes src usedCharset (Suc i) n of
             Inl err \<Rightarrow> Inl err
           | Inr rest \<Rightarrow> Inr (usedCharset ! num # rest)))"

definition GenerateLicenseKey ::
  "rand_source \<Rightarrow> string \<Rightarrow> int \<Rightarrow> string \<Rightarrow> string \<Rightarrow> rand_error + string" where
  "GenerateLicenseKey src prefix length0 separator0 charset =
     (let length1 = (if length0 \<le> 0 then 12 else length0);
          separator = (if separator0 = [] then ''-'' else separator0);
          usedCharset = (if charset \<noteq> [] then charset else defaultCharset)
      in case fillBytes src usedCharset 0 (nat length1) of
           Inl err \<Rightarrow> Inl err
         | Inr randomString \<Rightarrow>
             if prefix \<noteq> [] then Inr (prefix @ separator @ randomString)
             else Inr randomString)"

section \<open>Time, integers and duration strings (internal/api/handlers/utils.go)\<close>

text \<open>
  A \<open>time.Time\<close> is an instant, counted in nanoseconds since the Unix epoch;
  \<open>t.Before(u)\<close> is \<open>t < u\<close> and \<open>t.Add(d)\<close> is \<open>t + d\<close> for a \<open>time.Duration\<close> \<open>d\<close>,
  a signed 64-bit count of nanoseconds. A Go \<open>int\<close> has 64 bits; products wrap around.
  Calendar arithmetic (\<open>Time.AddDate\<close>) is a library function and an input of the model.
\<close>

type_synonym gotime = int

definition wrap64 :: "int \<Rightarrow> int" where
  "wrap64 x = (x + 2 ^ 63) mod 2 ^ 64 - 2 ^ 63"

definition Minute :: int where
  "Minute = 60 * 1000000000"

definition Hour :: int where
  "Hour = 60 * Minute"

definition Unix :: "gotime \<Rightarrow> int" where
  \<comment> \<open>\<open>t.Unix()\<close>: whole seconds since the epoch.\<close>
  "Unix t = t div 1000000000"

datatype num_error = ErrSyntax | ErrRange

definition isDigit :: "char \<Rightarrow> bool" where
  "isDigit c = (48 \<le> byte_val c \<and> byte_val c \<le> 57)"

definition digitsValue :: "string \<Rightarrow> int" where
  "digitsValue ds = foldl (\<lambda>acc c. 10 * acc + (int (byte_val c) - 48)) 0 ds"

definition Atoi :: "string \<Rightarrow> num_error + int" where
  \<comment> \<open>\<open>strconv.Atoi\<close>: an optional sign, then one or more decimal digits, in the range of \<open>int\<close>.\<close>
  "Atoi s =
     (let signed = (s \<noteq> [] \<and> (hd s = CHR ''+'' \<or> hd s = CHR ''-''));
          neg = (s \<noteq> [] \<and> hd s = CHR ''-'');
          ds = (if signed then tl s else s)
      in if ds = [] \<or> \<not> list_all isDigit ds then Inl ErrSyntax
         else (let n = (if neg then - digitsValue ds else digitsValue ds)
               in if n < - (2 ^ 63) \<or> 2 ^ 63 - 1 < n then Inl ErrRange else Inr n))"

datatype duration_error =
    DurationTooShort      \<comment> \<open>\<open>fmt.Errorf("duration too short")\<close>\<close>
  | InvalidNumber         \<comment> \<open>\<open>fmt.Errorf("invalid number")\<close>\<close>
  | UnknownUnit string    \<comment> \<open>\<open>fmt.Errorf("unknown unit %q", unit)\<close>\<close>

type_synonym add_date = "gotime \<Rightarrow> int \<Rightarrow> int \<Rightarrow> int \<Rightarrow> gotime"

definition ParseExpirationDuration :: "add_date \<Rightarrow> gotime \<Rightarrow> string \<Rightarrow> duration_error + gotime" where
  "ParseExpirationDuration AddDate now d =
     (if length d < 2 then Inl DurationTooShort
      else
        (let unit = (if HasSuffix d ''mo'' then ''mo'' else drop (length d - 1) d);
             valStr = (if HasSuffix d ''mo'' then take (length d - 2) d
                       else take (length d - 1) d)
         in case Atoi valStr of
              Inl err \<Rightarrow> Inl InvalidNumber
            | Inr val \<Rightarrow>
                if unit = ''m'' then Inr (now + wrap64 (Minute * val))
                else if unit = ''h'' then Inr (now + wrap64 (Hour * val))
                else if unit = ''d'' then Inr (AddDate now 0 0 val)
                else if unit = ''w'' then Inr (AddDate now 0 0 (wrap64 (val * 7)))
                else if unit = ''mo'' then Inr (AddDate now 0 val 0)
                else if unit = ''y'' then Inr (AddDate now val 0 0)
                else Inl (UnknownUnit unit)))"

section \<open>Data model (internal/models/models.go)\<close>

text \<open>
  \<open>LicenseType\<close> and \<open>LicenseStatus\<close> are string types; a \<open>uuid.UUID\<close> is kept as its text.
  A nil slice and an empty slice are both the empty list. Fields of the product, of the
  product group and of the request carry the prefixes \<open>p_\<close>, \<open>g_\<close> and \<open>r_\<close>.
\<close>

type_synonym LicenseType = string
type_synonym LicenseStatus = string
type_synonym uuid = string

definition LicenseStatusActive :: LicenseStatus where
  "LicenseStatusActive = ''active''"

definition LicenseStatusRevoked :: LicenseStatus where
  "LicenseStatusRevoked = ''revoked''"

definition LicenseStatusExpired :: LicenseStatus where
  "LicenseStatusExpired = ''expired''"

record ProductGroup =
  g_ID :: uuid
  g_OwnerID :: "string option"
  g_Name :: string
  g_Description :: string
  g_LicensePrefix :: string
  g_LicenseSeparator :: string
  g_LicenseCharset :: string
  g_LicenseLength :: int
  g_CreatedAt :: gotime
  g_UpdatedAt :: gotime

record Product =
  p_ID :: uuid
  p_OwnerID :: "string option"
  p_Name :: string
  p_Description :: string
  p_LicensePrefix :: string
  p_LicenseSeparator :: string
  p_LicenseCharset :: string
  p_LicenseLength :: int
  p_LicenseType :: LicenseType
  p_LicenseDuration :: string
  p_ProductGroupID :: "uuid option"
  p_CreatedAt :: gotime
  p_UpdatedAt :: gotime

record License =
  ID :: uuid
  Key :: string
  OwnerID :: "string option"
  Type :: LicenseType
  ProductID :: uuid
  AllowedIPs :: "string list"
  AllowedNetworks :: "string list"
  ExpiresAt :: "gotime option"
  Features :: "string list"
  Releases :: "string list"
  Status :: LicenseStatus
  CreatedAt :: gotime
  UpdatedAt :: gotime

section \<open>Responses, stores and library functions\<close>

datatype store_error = ErrNotFound | ErrDuplicate | ErrStore string

datatype claim_value = CString string | CBool bool | CInt int | CStrings "string list"

text \<open>
  A signed token is kept as what it was built from: the signing method, the claims and
  the private key that signed them. Its compact text and the signature are library output.
\<close>

datatype jwt = JWT (jwt_method: string) (jwt_claims: "string \<Rightarrow> claim_value option") (jwt_key: string)

datatype fmt_arg = DurationErr duration_error | CharsetErr charset_error

datatype json =
    JBool bool
  | JString string
  | JTime "gotime option"
  | JToken jwt
  | JSprintf string fmt_arg    \<comment> \<open>\<open>fmt.Sprintf(format, err)\<close>, left unformatted\<close>

type_synonym H = "string \<Rightarrow> json option"

datatype body = JSON_H H | JSON_License License

datatype store_call =
    CallGetLicenseByKey string
  | CallCreateLicense License
  | CallUpdateLicense License
  | CallGetProduct string
  | CallGetProductGroup string

text \<open>
  What a handler did: the HTTP status and body it wrote with \<open>c.JSON\<close>, and the calls it
  made to the license, product and product-group stores, in order.
\<close>

record response =
  status :: nat
  body :: body
  calls :: "store_call list"

text \<open>
  Package \<open>net\<close> and \<open>base64.StdEncoding.DecodeString\<close> are inputs of the model;
  \<open>ParseIP\<close> gives \<open>None\<close> for Go's nil, \<open>ParseCIDR\<close> gives \<open>None\<close> for an error.
\<close>

record ('ip, 'net) golib =
  ParseIP :: "string \<Rightarrow> 'ip option"
  ParseCIDR :: "string \<Rightarrow> ('ip \<times> 'net) option"
  ip_Equal :: "'ip \<Rightarrow> 'ip \<Rightarrow> bool"
  net_Contains :: "'net \<Rightarrow> 'ip \<Rightarrow> bool"
  DecodeString :: "string \<Rightarrow> string option"

section \<open>Offline token signer (SignLicense)\<close>

datatype sign_error = PrivateKeyEmpty | DecodeFailed | InvalidKeySize nat

definition PrivateKeySize :: nat where
  "PrivateKeySize = 64"

definition SignLicense ::
  "('ip, 'net) golib \<Rightarrow> string \<Rightarrow> string \<Rightarrow> gotime option \<Rightarrow> bool \<Rightarrow> string list
     \<Rightarrow> sign_error + jwt" where
  "SignLicense lib privateKeyBase64 key expiresAt valid features =
     (if privateKeyBase64 = [] then Inl PrivateKeyEmpty
      else
        (case DecodeString lib privateKeyBase64 of
           None \<Rightarrow> Inl DecodeFailed
         | Some privateKeyBytes \<Rightarrow>
             if length privateKeyBytes \<noteq> PrivateKeySize
             then Inl (InvalidKeySize (length privateKeyBytes))
             else
               (let claims = [''sub'' \<mapsto> CString key, ''iss'' \<mapsto> CString ''clortho'',
                              ''valid'' \<mapsto> CBool valid, ''features'' \<mapsto> CStrings features];
                    claims' = (case expiresAt of
                                 None \<Rightarrow> claims
                               | Some t \<Rightarrow> claims(''exp'' \<mapsto> CInt (Unix t)))
                in Inr (JWT ''EdDSA'' claims' privateKeyBytes))))"

section \<open>License check (CheckLicenseHandler)\<close>

record check_request =
  X_License_Key :: string    \<comment> \<open>\<open>c.GetHeader("X-License-Key")\<close>, empty when absent\<close>
  q_version :: string        \<comment> \<open>\<open>c.Query("version")\<close>\<close>
  q_feature :: string        \<comment> \<open>\<open>c.Query("feature")\<close>\<close>
  ClientIP :: string         \<comment> \<open>\<open>c.ClientIP()\<close>\<close>
  UserAgent :: string

record LicenseCheckLog =
  log_ProductID :: "uuid option"
  log_LicenseID :: "uuid option"
  log_LicenseKey :: string
  log_RequestPayload :: H
  log_ResponsePayload :: H
  log_IPAddress :: string
  log_UserAgent :: string
  log_StatusCode :: nat
  log_CreatedAt :: gotime

definition requireLicenseKey :: "check_request \<Rightarrow> response + string" where
  "requireLicenseKey c =
     (let key = X_License_Key c in
      if key = [] then
        Inl \<lparr>status = 400,
             body = JSON_H [''error'' \<mapsto> JString ''X-License-Key header is required''],
             calls = []\<rparr>
      else Inr key)"

definition checkStatus :: "License \<Rightarrow> gotime \<Rightarrow> bool \<times> string" where
  \<comment> \<open>The block under \<open>// Check expiration\<close>; the result is \<open>(valid, reason)\<close>.\<close>
  "checkStatus license now =
     (if Status license = LicenseStatusRevoked then (False, ''License is revoked'')
      else if (case ExpiresAt license of None \<Rightarrow> False | Some t \<Rightarrow> t < now)
      then (False, ''License has expired'')
      else (True, []))"

fun matchAllowedIPs :: "('ip, 'net) golib \<Rightarrow> 'ip \<Rightarrow> string list \<Rightarrow> bool" where
  \<comment> \<open>The loop over \<open>license.AllowedIPs\<close>: the value of \<open>ipAllowed\<close> after it.\<close>
  "matchAllowedIPs lib clientIP [] = False"
| "matchAllowedIPs lib clientIP (allowedIPStr # rest) =
     (case (case ParseIP lib allowedIPStr of
              Some ip \<Rightarrow> Some ip
            | None \<Rightarrow> (case ParseCIDR lib allowedIPStr of
                         Some (ip, subnet) \<Rightarrow> Some ip
                       | None \<Rightarrow> None)) of
        None \<Rightarrow> matchAllowedIPs lib clientIP rest
      | Some allowedIP \<Rightarrow>
          if ip_Equal lib allowedIP clientIP then True
          else matchAllowedIPs lib clientIP rest)"

fun matchAllowedNetworks :: "('ip, 'net) golib \<Rightarrow> 'ip \<Rightarrow> string list \<Rightarrow> bool" where
  \<comment> \<open>The loop over \<open>license.AllowedNetworks\<close>.\<close>
  "matchAllowedNetworks lib clientIP [] = False"
| "matchAllowedNetworks lib clientIP (allowedNetStr # rest) =
     (case ParseCIDR lib allowedNetStr of
        Some (ip, subnet) \<Rightarrow>
          if net_Contains lib subnet clientIP then True
          else matchAllowedNetworks lib clientIP rest
      | None \<Rightarrow> matchAllowedNetworks lib clientIP rest)"

definition checkIP ::
  "('ip, 'net) golib \<Rightarrow> License \<Rightarrow> string \<Rightarrow> bool \<times> string \<Rightarrow> bool \<times> string" where
  \<comment> \<open>The block under \<open>// Check IP restrictions\<close>.\<close>
  "checkIP lib license clientIPStr vr =
     (let (valid, reason) = vr in
      if valid \<and> (length (AllowedIPs license) > 0 \<or> length (AllowedNetworks license) > 0) then
        (case ParseIP lib clientIPStr of
           None \<Rightarrow> (False, ''Unable to determine client IP for validation'')
         | Some clientIP \<Rightarrow>
             (let ipAllowed = (length (AllowedIPs license) > 0
                               \<and> matchAllowedIPs lib clientIP (AllowedIPs license));
                  ipAllowed' = (if \<not> ipAllowed \<and> length (AllowedNetworks license) > 0
                                then matchAllowedNetworks lib clientIP (AllowedNetworks license)
                                else ipAllowed)
              in if \<not> ipAllowed' then (False, ''IP address not allowed'')
                 else (valid, reason)))
      else (valid, reason))"

definition checkVersion :: "License \<Rightarrow> string \<Rightarrow> bool \<times> string \<Rightarrow> bool \<times> string" where
  \<comment> \<open>The block under \<open>// Check version if query param is provided\<close>.\<close>
  "checkVersion license version vr =
     (let (valid, reason) = vr in
      if version \<noteq> [] \<and> valid then
        (let versionAllowed = (length (Releases license) = 0 \<or> version \<in> set (Releases license))
         in if \<not> versionAllowed then (False, ''License not valid for version '' @ version)
            else (valid, reason))
      else (valid, reason))"

definition checkFeature :: "License \<Rightarrow> string \<Rightarrow> bool \<times> string \<Rightarrow> bool \<times> string" where
  \<comment> \<open>The block under \<open>// Check feature if query param is provided\<close>.\<close>
  "checkFeature license feature vr =
     (let (valid, reason) = vr in
      if feature \<noteq> [] \<and> valid then
        (let featureAllowed = (feature \<in> set (Features license))
         in if \<not> featureAllowed then (False, ''Feature not enabled: '' @ feature)
            else (valid, reason))
      else (valid, reason))"

definition validate ::
  "('ip, 'net) golib \<Rightarrow> License \<Rightarrow> gotime \<Rightarrow> check_request \<Rightarrow> bool \<times> string" where
  \<comment> \<open>The four blocks in the handler's order; the result is the final \<open>(valid, reason)\<close>.\<close>
  "validate lib license now c =
     checkFeature license (q_feature c)
       (checkVersion license (q_version c)
          (checkIP lib license (ClientIP c) (checkStatus license now)))"

definition checkResponse ::
  "('ip, 'net) golib \<Rightarrow> string \<Rightarrow> string \<Rightarrow> License \<Rightarrow> bool \<times> string \<Rightarrow> H" where
  \<comment> \<open>The \<open>gin.H\<close> built after the checks, with the optional \<open>reason\<close> and \<open>token\<close> keys.\<close>
  "checkResponse lib responseSigningPrivateKey key license vr =
     (let (valid, reason) = vr;
          response = [''valid'' \<mapsto> JBool valid, ''expires_at'' \<mapsto> JTime (ExpiresAt license)];
          response' = (if reason \<noteq> [] then response(''reason'' \<mapsto> JString reason) else response)
      in if responseSigningPrivateKey \<noteq> [] then
           (case SignLicense lib responseSigningPrivateKey key (ExpiresAt license) valid
                   (Features license) of
              Inl err \<Rightarrow> response'
            | Inr token \<Rightarrow> response'(''token'' \<mapsto> JToken token))
         else response')"

definition CheckLicenseHandler ::
  "('ip, 'net) golib \<Rightarrow> (string \<Rightarrow> store_error + License) \<Rightarrow> string \<Rightarrow> gotime
     \<Rightarrow> check_request \<Rightarrow> response \<times> LicenseCheckLog" where
  "CheckLicenseHandler lib GetLicenseByKey responseSigningPrivateKey now c =
     (let logEntry = \<lparr>log_ProductID = None, log_LicenseID = None,
                      log_LicenseKey = X_License_Key c,
                      log_RequestPayload = [''version'' \<mapsto> JString (q_version c),
                                            ''feature'' \<mapsto> JString (q_feature c)],
                      log_ResponsePayload = Map.empty,
                      log_IPAddress = ClientIP c, log_UserAgent = UserAgent c,
                      log_StatusCode = 0, log_CreatedAt = now\<rparr>
      in case requireLicenseKey c of
           Inl resp \<Rightarrow> (resp, logEntry)
         | Inr key \<Rightarrow>
             (case GetLicenseByKey key of
                Inl err \<Rightarrow>
                  (\<lparr>status = 404,
                    body = JSON_H [''error'' \<mapsto> JString ''License not found''],
                    calls = [CallGetLicenseByKey key]\<rparr>,
                   logEntry\<lparr>log_StatusCode := 404,
                            log_ResponsePayload := [''error'' \<mapsto> JString ''License not found'']\<rparr>)
              | Inr license \<Rightarrow>
                  (let resp = checkResponse lib responseSigningPrivateKey key license
                                (validate lib license now c)
                   in (\<lparr>status = 200, body = JSON_H resp,
                        calls = [CallGetLicenseByKey key]\<rparr>,
                       logEntry\<lparr>log_ProductID := Some (ProductID license),
                                log_LicenseID := Some (ID license),
                                log_StatusCode := 200,
                                log_ResponsePayload := resp\<rparr>))))"

section \<open>License generation (GenerateLicenseHandler)\<close>

record generateLicenseRequest =
  r_ProductID :: string
  r_Type :: LicenseType
  r_ExpiresAt :: "gotime option"
  r_Duration :: string
  r_Prefix :: string
  r_Length :: int
  r_FeatureCodes :: "string list"
  r_ReleaseVersions :: "string list"
  r_AllowedIPs :: "string list"
  r_AllowedNetworks :: "string list"
  r_OwnerID :: "string option"

record AdminLog =
  al_Action :: string
  al_EntityType :: string
  al_EntityID :: "uuid option"
  al_OwnerID :: "string option"
  al_Details :: body
  al_CreatedAt :: gotime

text \<open>
  The collaborators of the handler: the stores' answers, the random source, the calendar,
  the clock and the fresh identifier of \<open>uuid.New()\<close>.
\<close>

record gen_env =
  GetProduct :: "string \<Rightarrow> store_error + Product"
  GetProductGroup :: "string \<Rightarrow> store_error + ProductGroup"
  CreateLicense :: "License \<Rightarrow> store_error option"
  rand_Reader :: rand_source
  AddDate :: add_date
  Now :: gotime
  uuid_New :: uuid

record settings =
  s_prefix :: string
  s_length :: int
  s_separator :: string
  s_charsetRaw :: string

definition resolveSettings ::
  "generateLicenseRequest \<Rightarrow> Product \<Rightarrow> ProductGroup option \<Rightarrow> settings" where
  \<comment> \<open>The block under \<open>// Resolve settings with inheritance from ProductGroup\<close>, up to the
      request's prefix; \<open>grp\<close>, the group, is present when the product names a group and the group
      store returned it.\<close>
  "resolveSettings req product grp =
     (let prefix = p_LicensePrefix product;
          separator = p_LicenseSeparator product;
          charsetRaw = p_LicenseCharset product;
          len = (if r_Length req = 0 then p_LicenseLength product else r_Length req);
          prefix1 = (case grp of None \<Rightarrow> prefix
                     | Some g \<Rightarrow> if prefix = [] then g_LicensePrefix g else prefix);
          separator1 = (case grp of None \<Rightarrow> separator
                        | Some g \<Rightarrow>
                            if (separator = [] \<or> separator = ''-'') \<and> g_LicenseSeparator g \<noteq> []
                            then g_LicenseSeparator g else separator);
          charsetRaw1 = (case grp of None \<Rightarrow> charsetRaw
                         | Some g \<Rightarrow> if charsetRaw = [] then g_LicenseCharset g else charsetRaw);
          len1 = (case grp of None \<Rightarrow> len
                  | Some g \<Rightarrow> if len = 0 then g_LicenseLength g else len);
          len2 = (if len1 \<le> 0 then 12 else len1);
          prefix2 = (if prefix1 = [] then ''LICENSE'' else prefix1);
          prefix3 = (if r_Prefix req \<noteq> [] then r_Prefix req else prefix2)
      in \<lparr>s_prefix = prefix3, s_length = len2, s_separator = separator1,
          s_charsetRaw = charsetRaw1\<rparr>)"

definition errorResponse :: "nat \<Rightarrow> json \<Rightarrow> store_call list \<Rightarrow> response" where
  \<comment> \<open>\<open>c.JSON(code, gin.H{"error": msg}); return\<close>\<close>
  "errorResponse code msg cs = \<lparr>status = code, body = JSON_H [''error'' \<mapsto> msg], calls = cs\<rparr>"

definition resolveExpiry ::
  "gen_env \<Rightarrow> generateLicenseRequest \<Rightarrow> response + gotime option" where
  \<comment> \<open>The handler from the \<open>expires_at\<close>/\<open>duration\<close> exclusion to the computed \<open>expiresAt\<close>.\<close>
  "resolveExpiry env req =
     (if r_ExpiresAt req \<noteq> None \<and> r_Duration req \<noteq> [] then
        Inl (errorResponse 400 (JString ''Cannot specify both expires_at and duration'') [])
      else if r_ExpiresAt req \<noteq> None then Inr (r_ExpiresAt req)
      else if r_Duration req \<noteq> [] then
        (case ParseExpirationDuration (AddDate env) (Now env) (r_Duration req) of
           Inl err \<Rightarrow>
             Inl (errorResponse 400 (JSprintf ''Invalid duration format: %v'' (DurationErr err)) [])
         | Inr exp \<Rightarrow> Inr (Some exp))
      else Inr None)"

definition lookupGroup :: "gen_env \<Rightarrow> Product \<Rightarrow> ProductGroup option \<times> store_call list" where
  \<comment> \<open>The group the settings inherit from, and the call made to fetch it.\<close>
  "lookupGroup env product =
     (case p_ProductGroupID product of
        None \<Rightarrow> (None, [])
      | Some gid \<Rightarrow>
          (case GetProductGroup env gid of
             Inl err \<Rightarrow> (None, [CallGetProductGroup gid])
           | Inr grp \<Rightarrow> (Some grp, [CallGetProductGroup gid])))"

definition newLicense ::
  "gen_env \<Rightarrow> generateLicenseRequest \<Rightarrow> Product \<Rightarrow> string \<Rightarrow> gotime option \<Rightarrow> License" where
  "newLicense env req product key expiresAt =
     \<lparr>ID = uuid_New env, Key = key, OwnerID = r_OwnerID req, Type = r_Type req,
      ProductID = p_ID product, AllowedIPs = r_AllowedIPs req,
      AllowedNetworks = r_AllowedNetworks req, ExpiresAt = expiresAt,
      Features = (if length (r_FeatureCodes req) > 0 then r_FeatureCodes req else []),
      Releases = (if length (r_ReleaseVersions req) > 0 then r_ReleaseVersions req else []),
      Status = LicenseStatusActive, CreatedAt = Now env, UpdatedAt = Now env\<rparr>"

text \<open>
  The handler after a successful \<open>ShouldBindJSON\<close>. The result is \<open>None\<close> when the handler
  does not return (the charset parser's loop); otherwise the response and the admin log
  entry handed to \<open>AsyncLogAdminAction\<close>.
\<close>

definition GenerateLicenseHandler ::
  "gen_env \<Rightarrow> generateLicenseRequest \<Rightarrow> (response \<times> AdminLog option) option" where
  "GenerateLicenseHandler env req =
     (case resolveExpiry env req of
        Inl resp \<Rightarrow> Some (resp, None)
      | Inr expiresAt \<Rightarrow>
          (case GetProduct env (r_ProductID req) of
             Inl err \<Rightarrow>
               Some (errorResponse 400 (JString ''Invalid product_id or product not found'')
                       [CallGetProduct (r_ProductID req)], None)
           | Inr product \<Rightarrow>
               (let (grp, groupCalls) = lookupGroup env product;
                    cs = CallGetProduct (r_ProductID req) # groupCalls;
                    s = resolveSettings req product grp
                in case ParseCharset (s_charsetRaw s) of
                     None \<Rightarrow> None
                   | Some (Inl err) \<Rightarrow>
                       Some (errorResponse 400
                               (JSprintf ''Invalid charset configuration: %v'' (CharsetErr err)) cs,
                             None)
                   | Some (Inr parsedCharset) \<Rightarrow>
                       (case GenerateLicenseKey (rand_Reader env) (s_prefix s) (s_length s)
                               (s_separator s) parsedCharset of
                          Inl err \<Rightarrow>
                            Some (errorResponse 500 (JString ''Failed to generate license key'') cs,
                                  None)
                        | Inr key \<Rightarrow>
                            (let license = newLicense env req product key expiresAt;
                                 cs' = cs @ [CallCreateLicense license]
                             in case CreateLicense env license of
                                  Some err \<Rightarrow>
                                    Some (errorResponse 500 (JString ''Failed to save license'') cs',
                                          None)
                                | None \<Rightarrow>
                                    Some (\<lparr>status = 201, body = JSON_License license,
                                           calls = cs'\<rparr>,
                                          Some \<lparr>al_Action = ''GENERATE_LICENSE'',
                                                 al_EntityType = ''LICENSE'',
                                                 al_EntityID = Some (ID license),
                                                 al_OwnerID = r_OwnerID req,
                                                 al_Details = JSON_License license,
                                                 al_CreatedAt = Now env\<rparr>))))))"

section \<open>Rate limiter (internal/api/middleware/rate\_limit.go)\<close>

text \<open>
  The token bucket (\<open>rate.Limiter\<close>) and the expiring LRU cache are library types and
  inputs of the model. The cache holds pointers to limiters and \<open>Allow\<close> changes the
  limiter it is called on: \<open>lru_Store\<close> writes the limiter's new state to the entry of
  its key and touches neither order nor expiry. \<open>'f\<close> stands for \<open>float64\<close>.
\<close>

record 'f RateLimitConfig =
  RequestsPerSecond :: 'f
  Burst :: int
  Enabled :: bool
  CacheSize :: int
  CacheTTL :: int

record ('f, 'lim, 'cache) ratelib =
  NewLimiter :: "'f \<Rightarrow> int \<Rightarrow> 'lim"
  Allow :: "gotime \<Rightarrow> 'lim \<Rightarrow> bool \<times> 'lim"
  NewLRU :: "int \<Rightarrow> int \<Rightarrow> 'cache"
  lru_Get :: "'cache \<Rightarrow> gotime \<Rightarrow> string \<Rightarrow> 'lim option \<times> 'cache"
  lru_Add :: "'cache \<Rightarrow> gotime \<Rightarrow> string \<Rightarrow> 'lim \<Rightarrow> 'cache"
  lru_Store :: "'cache \<Rightarrow> string \<Rightarrow> 'lim \<Rightarrow> 'cache"

record ('f, 'cache) RateLimiter =
  ips :: 'cache
  rl_r :: 'f
  rl_b :: int
  enabled :: bool

definition NewRateLimiter ::
  "('f, 'lim, 'cache) ratelib \<Rightarrow> 'f RateLimitConfig \<Rightarrow> ('f, 'cache) RateLimiter" where
  "NewRateLimiter lib cfg =
     (let size = (if CacheSize cfg \<le> 0 then 5000 else CacheSize cfg);
          ttl = (if CacheTTL cfg \<le> 0 then 0 else CacheTTL cfg)
      in \<lparr>ips = NewLRU lib size ttl, rl_r = RequestsPerSecond cfg, rl_b = Burst cfg,
          enabled = Enabled cfg\<rparr>)"

definition GetLimiter ::
  "('f, 'lim, 'cache) ratelib \<Rightarrow> gotime \<Rightarrow> ('f, 'cache) RateLimiter \<Rightarrow> string
     \<Rightarrow> 'lim \<times> ('f, 'cache) RateLimiter" where
  "GetLimiter lib now rl ip =
     (case lru_Get lib (ips rl) now ip of
        (Some limiter, ips') \<Rightarrow> (limiter, rl\<lparr>ips := ips'\<rparr>)
      | (None, ips') \<Rightarrow>
          (let limiter = NewLimiter lib (rl_r rl) (rl_b rl)
           in (limiter, rl\<lparr>ips := lru_Add lib ips' now ip limiter\<rparr>)))"

datatype outcome =
    Next               \<comment> \<open>\<open>c.Next()\<close>: the request goes on to the next handler\<close>
  | Abort nat body     \<comment> \<open>\<open>c.JSON(code, body); c.Abort()\<close>\<close>

text \<open>
  \<open>RateLimitMiddleware cfg\<close> returns a handler. With the limiter disabled the handler has
  no state (\<open>None\<close>); otherwise it closes over the \<open>RateLimiter\<close> made once.
\<close>

definition RateLimitMiddleware ::
  "('f, 'lim, 'cache) ratelib \<Rightarrow> 'f RateLimitConfig \<Rightarrow> ('f, 'cache) RateLimiter option" where
  "RateLimitMiddleware lib cfg =
     (if \<not> Enabled cfg then None else Some (NewRateLimiter lib cfg))"

definition rateLimitHandler ::
  "('f, 'lim, 'cache) ratelib \<Rightarrow> ('f, 'cache) RateLimiter option \<Rightarrow> gotime \<Rightarrow> string
     \<Rightarrow> outcome \<times> ('f, 'cache) RateLimiter option" where
  \<comment> \<open>One request with client IP \<open>ip\<close> through the handler that \<open>RateLimitMiddleware\<close> returned.\<close>
  "rateLimitHandler lib st now ip =
     (case st of
        None \<Rightarrow> (Next, None)
      | Some rl \<Rightarrow>
          (let (limiter, rl') = GetLimiter lib now rl ip;
               (ok, limiter') = Allow lib now limiter;
               rl'' = rl'\<lparr>ips := lru_Store lib (ips rl') ip limiter'\<rparr>
           in if \<not> ok
              then (Abort 429 (JSON_H [''error'' \<mapsto> JString ''Too many requests'']), Some rl'')
              else (Next, Some rl'')))"

section \<open>Reading a response\<close>

definition field :: "response \<Rightarrow> string \<Rightarrow> json option" where
  \<comment> \<open>The value of a key of the JSON object a handler wrote, if it wrote one.\<close>
  "field resp k = (case body resp of JSON_H h \<Rightarrow> h k | JSON_License l \<Rightarrow> None)"

section \<open>Concrete library instances for evaluation\<close>

text \<open>
  The theorems below hold for every library instance. To evaluate a handler on concrete
  requests, the following instances are used: dotted-quad IPv4 text for package \<open>net\<close>,
  padded standard base64 without line breaks, a token bucket that is never refilled and
  a cache that never evicts. On such inputs they agree with the Go libraries.
\<close>

definition parseOctet :: "string \<Rightarrow> int option" where
  "parseOctet s =
     (if s = [] \<or> 3 < length s \<or> \<not> list_all isDigit s \<or> (1 < length s \<and> hd s = CHR ''0'')
      then None
      else if 255 < digitsValue s then None else Some (digitsValue s))"

definition ParseIPv4 :: "string \<Rightarrow> int option" where
  "ParseIPv4 s =
     (case map parseOctet (Split s CHR ''.'') of
        [Some a, Some b, Some c, Some d] \<Rightarrow> Some (((a * 256 + b) * 256 + c) * 256 + d)
      | _ \<Rightarrow> None)"

definition ParseCIDRv4 :: "string \<Rightarrow> (int \<times> int \<times> nat) option" where
  \<comment> \<open>The address, and the network as its masked base address and prefix length.\<close>
  "ParseCIDRv4 s =
     (case Split s CHR ''/'' of
        [addr, bits] \<Rightarrow>
          (case (ParseIPv4 addr, Atoi bits) of
             (Some ip, Inr n) \<Rightarrow>
               if bits \<noteq> [] \<and> list_all isDigit bits \<and> 0 \<le> n \<and> n \<le> 32
               then Some (ip, (ip div 2 ^ (32 - nat n)) * 2 ^ (32 - nat n), nat n)
               else None
           | _ \<Rightarrow> None)
      | _ \<Rightarrow> None)"

definition b64val :: "char \<Rightarrow> nat option" where
  "b64val c =
     (let v = byte_val c in
      if 65 \<le> v \<and> v \<le> 90 then Some (v - 65)
      else if 97 \<le> v \<and> v \<le> 122 then Some (v - 71)
      else if 48 \<le> v \<and> v \<le> 57 then Some (v + 4)
      else if c = CHR ''+'' then Some 62
      else if c = CHR ''/'' then Some 63
      else None)"

fun b64decode :: "string \<Rightarrow> string option" where
  "b64decode [] = Some []"
| "b64decode (a # b # c # d # rest) =
     (case (b64val a, b64val b) of
        (Some x, Some y) \<Rightarrow>
          if rest = [] \<and> c = CHR ''='' \<and> d = CHR ''=''
          then Some [char_of (x * 4 + y div 16)]
          else
            (case b64val c of
               None \<Rightarrow> None
             | Some z \<Rightarrow>
                 if rest = [] \<and> d = CHR ''=''
                 then Some [char_of (x * 4 + y div 16), char_of ((y mod 16) * 16 + z div 4)]
                 else
                   (case (b64val d, b64decode rest) of
                      (Some w, Some out) \<Rightarrow>
                        Some (char_of (x * 4 + y div 16) # char_of ((y mod 16) * 16 + z div 4)
                              # char_of ((z mod 4) * 64 + w) # out)
                    | _ \<Rightarrow> None))
      | _ \<Rightarrow> None)"
| "b64decode _ = None"

definition ipv4lib :: "(int, int \<times> nat) golib" where
  "ipv4lib =
     \<lparr>ParseIP = ParseIPv4, ParseCIDR = ParseCIDRv4, ip_Equal = (\<lambda>a b. a = b),
      net_Contains = (\<lambda>subnet ip. ip div 2 ^ (32 - snd subnet) * 2 ^ (32 - snd subnet) = fst subnet),
      DecodeString = b64decode\<rparr>"

definition bucketlib :: "(int, nat, (string \<times> nat) list) ratelib" where
  "bucketlib =
     \<lparr>NewLimiter = (\<lambda>r b. nat b),
      Allow = (\<lambda>now tokens. (0 < tokens, tokens - 1)),
      NewLRU = (\<lambda>size ttl. []),
      lru_Get = (\<lambda>cache now k. (map_of cache k, cache)),
      lru_Add = (\<lambda>cache now k v. (k, v) # cache),
      lru_Store = (\<lambda>cache k v. map (\<lambda>(k', v'). if k' = k then (k', v) else (k', v')) cache)\<rparr>"

section \<open>The specification's words\<close>

text \<open>
  The definitions of this section are not taken from the source. They say what the
  specification says, so that the source's functions can be compared with them.
\<close>

definition rawOf :: "rand_error + nat \<Rightarrow> nat" where
  \<comment> \<open>The entropy of a read of the random source that succeeded.\<close>
  "rawOf x = (case x of Inl err \<Rightarrow> 0 | Inr raw \<Rightarrow> raw)"

definition randomPart :: "rand_source \<Rightarrow> string \<Rightarrow> nat \<Rightarrow> string" where
  \<comment> \<open>\<open>n\<close> characters, the \<open>j\<close>-th drawn from the alphabet by the \<open>j\<close>-th read of the source.\<close>
  "randomPart src alphabet n =
     map (\<lambda>j. alphabet ! (rawOf (src j) mod length alphabet)) [0..<n]"

definition isRangeToken :: "string \<Rightarrow> bool" where
  \<comment> \<open>A three-character token \<open>X-Y\<close>.\<close>
  "isRangeToken tok = (length tok = 3 \<and> tok ! 1 = CHR ''-'')"

definition isBadRange :: "string \<Rightarrow> bool" where
  \<comment> \<open>A range token with \<open>X > Y\<close>.\<close>
  "isBadRange tok = (isRangeToken tok \<and> byte_val (tok ! 2) < byte_val (tok ! 0))"

definition expandToken :: "string \<Rightarrow> string" where
  \<comment> \<open>All characters from \<open>X\<close> to \<open>Y\<close> inclusive for a range token, the token's own
      characters otherwise.\<close>
  "expandToken tok =
     (if isRangeToken tok then map char_of [byte_val (tok ! 0)..<byte_val (tok ! 2) + 1]
      else tok)"

definition spec_ParseCharset :: "string \<Rightarrow> charset_error + string" where
  \<comment> \<open>The charset parser as the specification describes it.\<close>
  "spec_ParseCharset input =
     (if input = [] then Inr defaultCharset
      else (case find isBadRange (Split input CHR '','') of
              Some tok \<Rightarrow> Inl (InvalidRange tok)
            | None \<Rightarrow> Inr (concat (map expandToken (Split input CHR '','')))))"

definition isIntegerText :: "string \<Rightarrow> bool" where
  \<comment> \<open>An integer \<open>N\<close>: an optional sign and one or more decimal digits.\<close>
  "isIntegerText s =
     (let ds = (if s \<noteq> [] \<and> (hd s = CHR ''+'' \<or> hd s = CHR ''-'') then tl s else s)
      in ds \<noteq> [] \<and> list_all isDigit ds)"

definition durationUnits :: "string list" where
  "durationUnits = [''m'', ''h'', ''d'', ''w'', ''mo'', ''y'']"

definition wellFormedDuration :: "string \<Rightarrow> bool" where
  \<comment> \<open>Of the form \<open>Nm\<close>, \<open>Nh\<close>, \<open>Nd\<close>, \<open>Nw\<close>, \<open>Nmo\<close> or \<open>Ny\<close> with an integer \<open>N\<close>.\<close>
  "wellFormedDuration d =
     list_ex (\<lambda>u. HasSuffix d u \<and> isIntegerText (take (length d - length u) d)) durationUnits"

definition spec_length :: "int \<Rightarrow> int \<Rightarrow> int option \<Rightarrow> int" where
  \<comment> \<open>The length by the stated precedence: the request's value when non-zero, then the
      product's when non-zero, then the group's, then 12.\<close>
  "spec_length reqLength productLength groupLength =
     (if reqLength \<noteq> 0 then reqLength
      else if productLength \<noteq> 0 then productLength
      else (case groupLength of
              Some g \<Rightarrow> if g \<noteq> 0 then g else 12
            | None \<Rightarrow> 12))"

definition keyUnusable :: "('ip, 'net) golib \<Rightarrow> string \<Rightarrow> bool" where
  \<comment> \<open>The configured key material is absent or malformed: empty, not base64, or not of
      the size of an Ed25519 private key.\<close>
  "keyUnusable lib pk =
     (pk = [] \<or> (case DecodeString lib pk of
                    None \<Rightarrow> True
                  | Some bytes \<Rightarrow> length bytes \<noteq> PrivateKeySize))"

section \<open>Inputs the charset parser's loop cannot finish\<close>

definition endsAt255 :: "string \<Rightarrow> bool" where
  \<comment> \<open>A range token whose upper end \<open>Y\<close> is the largest byte, 255.\<close>
  "endsAt255 tok = (isRangeToken tok \<and> byte_val (tok ! 2) = 255)"

section \<open>Auto-allowed IP\<close>

text \<open>
  Modelled from the spec: the auto-allow growth of the check. The specification gives a
  license the pair \<open>AutoAllowedIP\<close> (bool) and \<open>AutoAllowedIPLimit\<close> (int)
  and lets step 3 of the check admit and store a new address. The \<open>License\<close> struct and the
  \<open>CheckLicenseHandler\<close> of the source carry neither; the repository's test
  \<open>TestCheckLicense_AutoIPLogic\<close> exercises both. Matching an address against the lists
  is the source's (\<open>matchAllowedIPs\<close>, \<open>matchAllowedNetworks\<close>).
\<close>

record AutoLicense = License +
  AutoAllowedIP :: bool
  AutoAllowedIPLimit :: int

definition spec_checkIP ::
  "('ip, 'net) golib \<Rightarrow> AutoLicense \<Rightarrow> string \<Rightarrow> bool \<times> string
     \<Rightarrow> (bool \<times> string) \<times> AutoLicense option" where
  \<comment> \<open>Modelled from the spec: step 3 of the validation pipeline, which the handler of the
      source has without the growth rule. The second component is the license handed to
      the store's update, when the step persists one; the outcome of the update does not
      change the decision.\<close>
  "spec_checkIP lib license clientIPStr vr =
     (let (valid, reason) = vr in
      if valid \<and> (length (AllowedIPs license) > 0 \<or> length (AllowedNetworks license) > 0
                  \<or> AutoAllowedIP license) then
        (case ParseIP lib clientIPStr of
           None \<Rightarrow> ((False, ''Unable to determine client IP for validation''), None)
         | Some clientIP \<Rightarrow>
             if matchAllowedIPs lib clientIP (AllowedIPs license)
                \<or> matchAllowedNetworks lib clientIP (AllowedNetworks license)
             then ((valid, reason), None)
             else if AutoAllowedIP license
                     \<and> int (length (AllowedIPs license)) < AutoAllowedIPLimit license
             then ((valid, reason),
                   Some (license\<lparr>AllowedIPs := AllowedIPs license @ [clientIPStr]\<rparr>))
             else ((False, ''IP address not allowed''), None))
      else ((valid, reason), None))"


section \<open>Example inputs\<close>

text \<open>
  The license, the request and the caller of the repository's tests. In \<open>exampleEnv\<close> a
  calendar of 365-day years and 30-day months stands in for \<open>AddDate\<close>; no theorem
  evaluates it.
\<close>

definition exampleLicense :: License where
  "exampleLicense =
     \<lparr>ID = ''5b0c6a5e-0001'', Key = ''TEST-AUTO-ADD'', OwnerID = None, Type = ''perpetual'',
      ProductID = ''5b0c6a5e-0002'', AllowedIPs = [], AllowedNetworks = [], ExpiresAt = None,
      Features = [], Releases = [], Status = LicenseStatusActive,
      CreatedAt = 0, UpdatedAt = 0\<rparr>"


definition exampleCheck :: check_request where
  "exampleCheck =
     \<lparr>X_License_Key = ''TEST-AUTO-ADD'', q_version = [], q_feature = [],
      ClientIP = ''192.168.1.100'', UserAgent = ''go-test''\<rparr>"

definition exampleProduct :: Product where
  "exampleProduct =
     \<lparr>p_ID = ''5b0c6a5e-0002'', p_OwnerID = None, p_Name = ''Product'', p_Description = [],
      p_LicensePrefix = ''TEST'', p_LicenseSeparator = [], p_LicenseCharset = [],
      p_LicenseLength = 20, p_LicenseType = ''perpetual'', p_LicenseDuration = [],
      p_ProductGroupID = None, p_CreatedAt = 0, p_UpdatedAt = 0\<rparr>"

definition exampleGroup :: ProductGroup where
  "exampleGroup =
     \<lparr>g_ID = ''5b0c6a5e-0003'', g_OwnerID = None, g_Name = ''Suite'', g_Description = [],
      g_LicensePrefix = ''SUITE'', g_LicenseSeparator = ''_'', g_LicenseCharset = ''A-F,0-9'',
      g_LicenseLength = 25, g_CreatedAt = 0, g_UpdatedAt = 0\<rparr>"

definition exampleRequest :: generateLicenseRequest where
  "exampleRequest =
     \<lparr>r_ProductID = ''5b0c6a5e-0002'', r_Type = ''perpetual'', r_ExpiresAt = None,
      r_Duration = [], r_Prefix = [], r_Length = 0, r_FeatureCodes = [],
      r_ReleaseVersions = [], r_AllowedIPs = [], r_AllowedNetworks = [], r_OwnerID = None\<rparr>"

definition exampleEnv :: gen_env where
  "exampleEnv =
     \<lparr>GetProduct = (\<lambda>id. Inr exampleProduct), GetProductGroup = (\<lambda>id. Inr exampleGroup),
      CreateLicense = (\<lambda>l. None), rand_Reader = (\<lambda>j. Inr (7 * j)),
      AddDate = (\<lambda>t y m d. t + 86400000000000 * (365 * y + 30 * m + d)),
      Now = 10, uuid_New = ''5b0c6a5e-0001''\<rparr>"

definition exampleKey :: string where
  \<comment> \<open>The base64 text of 64 zero bytes.\<close>
  "exampleKey = ''AAAAAAAAAAAAAAAAAAAAAAAAAAAAAAAAAAAAAAAAAAAAAAAAAAAAAAAAAAAAAAAAAAAAAAAAAAAAAAAAAAAAAA==''"

definition exampleConfig :: "int RateLimitConfig" where
  "exampleConfig =
     \<lparr>RequestsPerSecond = 5, Burst = 1, Enabled = True, CacheSize = 5000, CacheTTL = 3600\<rparr>"

section \<open>The charset parser\<close>

lemma byte_val_lt: "byte_val c < 256" by (simp add: byte_val_def)

lemma writeRange_Some_not_255:
  assumes "writeRange i e b = Some y"
  shows "byte_val e \<noteq> 255"
proof (rule writeRange.raw_induct [where P = "\<lambda>i e b y. byte_val e \<noteq> 255"])
  show "writeRange i e b = Some y" by fact
next
  fix f :: "char \<Rightarrow> char \<Rightarrow> string \<Rightarrow> string option" and i e b y
  assume IH: "\<And>i e b y. f i e b = Some y \<Longrightarrow> byte_val e \<noteq> 255"
    and step: "(if byte_val i \<le> byte_val e then f (byte_succ i) e (b @ [i]) else Some b) = Some y"
  show "byte_val e \<noteq> 255"
  proof (cases "byte_val i \<le> byte_val e")
    case True
    with step IH show ?thesis by simp
  next
    case False
    then show ?thesis using byte_val_lt [of i] by simp
  qed
qed

lemma writeRange_diverges: "byte_val e = 255 \<Longrightarrow> writeRange i e b = None"
  using writeRange_Some_not_255 by (cases "writeRange i e b") auto

lemma byte_val_succ: "byte_val c < 255 \<Longrightarrow> byte_val (byte_succ c) = byte_val c + 1"
  by (simp add: byte_succ_def byte_val_def)

lemma char_of_byte_val: "char_of (byte_val c) = c" by (simp add: byte_val_def)

lemma writeRange_terminates:
  "byte_val e < 255 \<Longrightarrow> byte_val i \<le> byte_val e + 1 \<Longrightarrow>
   writeRange i e b = Some (b @ map char_of [byte_val i ..< byte_val e + 1])"
proof (induction "byte_val e + 1 - byte_val i" arbitrary: i b)
  case 0
  then have "byte_val i = byte_val e + 1" by simp
  then show ?case by (subst writeRange.simps) simp
next
  case (Suc n)
  then have le: "byte_val i \<le> byte_val e" by simp
  then have lt: "byte_val i < 255" using Suc.prems by simp
  have s: "byte_val (byte_succ i) = byte_val i + 1" using lt by (rule byte_val_succ)
  have "writeRange (byte_succ i) e (b @ [i]) = Some ((b @ [i]) @ map char_of [byte_val (byte_succ i) ..< byte_val e + 1])"
    using Suc s le by (intro Suc.hyps(1)) auto
  moreover have "[byte_val i ..< byte_val e + 1] = byte_val i # [byte_val i + 1 ..< byte_val e + 1]"
    using le by (simp add: upt_conv_Cons)
  ultimately show ?case using le s
    by (subst writeRange.simps) (simp add: char_of_byte_val)
qed

lemma parseParts_literal:
  "\<not> isRangeToken p \<Longrightarrow> parseParts (p # ps) b = parseParts ps (b @ p)"
  by (auto simp: isRangeToken_def)

lemma parseParts_bad:
  "isBadRange p \<Longrightarrow> parseParts (p # ps) b = Some (Inl (InvalidRange p))"
  by (simp add: isBadRange_def isRangeToken_def)

lemma parseParts_range:
  "isRangeToken p \<Longrightarrow> \<not> isBadRange p \<Longrightarrow>
   parseParts (p # ps) b =
     (case writeRange (p ! 0) (p ! 2) b of None \<Rightarrow> None | Some b' \<Rightarrow> parseParts ps b')"
  by (simp add: isBadRange_def isRangeToken_def)

lemma parseParts_spec:
  assumes "\<not> list_ex endsAt255 parts"
  shows "parseParts parts b =
           Some (case find isBadRange parts of
                   Some tok \<Rightarrow> Inl (InvalidRange tok)
                 | None \<Rightarrow> Inr (b @ concat (map expandToken parts)))"
  using assms
proof (induction parts arbitrary: b)
  case Nil
  then show ?case by simp
next
  case (Cons p ps)
  then have ps: "\<not> list_ex endsAt255 ps" and p: "\<not> endsAt255 p" by simp_all
  note IH = Cons.IH [OF ps]
  show ?case
  proof (cases "isRangeToken p")
    case False
    then have "\<not> isBadRange p" "expandToken p = p"
      by (simp_all add: isBadRange_def expandToken_def)
    then show ?thesis using False IH by (simp add: parseParts_literal del: parseParts.simps split: option.split)
  next
    case True
    show ?thesis
    proof (cases "isBadRange p")
      case True
      then show ?thesis by (simp add: parseParts_bad del: parseParts.simps)
    next
      case False
      have "byte_val (p ! 2) < 255"
        using p \<open>isRangeToken p\<close> byte_val_lt [of "p ! 2"] by (simp add: endsAt255_def)
      moreover have "byte_val (p ! 0) \<le> byte_val (p ! 2) + 1"
        using False \<open>isRangeToken p\<close> by (simp add: isBadRange_def)
      ultimately have "writeRange (p ! 0) (p ! 2) b =
          Some (b @ map char_of [byte_val (p ! 0) ..< byte_val (p ! 2) + 1])"
        by (rule writeRange_terminates)
      moreover have "expandToken p = map char_of [byte_val (p ! 0) ..< byte_val (p ! 2) + 1]"
        using \<open>isRangeToken p\<close> by (simp add: expandToken_def)
      ultimately show ?thesis using False \<open>isRangeToken p\<close> IH
        by (simp add: parseParts_range del: parseParts.simps split: option.split)
    qed
  qed
qed

lemma ParseCharset_refines_spec:
  "\<not> list_ex endsAt255 (Split input CHR '','') \<Longrightarrow> ParseCharset input = Some (spec_ParseCharset input)"
  by (simp add: ParseCharset_def spec_ParseCharset_def parseParts_spec split: option.split)

text \<open>
  Claim C3. For a non-empty input the parser returns the concatenation of the expanded
  tokens, or the invalid-range error of the first range token with \<open>X > Y\<close>; lemma
  \<open>ParseCharset_refines_spec\<close> shows it for every input with no range token whose upper
  end is the byte 255. On a range token \<open>X-Y\<close> with \<open>Y\<close> the byte 255 the loop counter wraps
  from 255 to 0 and the parser does not return: on the three bytes \<open>a\<close>, \<open>-\<close>, \<open>0xFF\<close> the
  source gives no result, where the claim gives the bytes from \<open>a\<close> to \<open>0xFF\<close>.
\<close>

theorem C3_range_up_to_0xFF_does_not_return:
  "ParseCharset [CHR ''a'', CHR ''-'', CHR 0xFF] = None
   \<and> spec_ParseCharset [CHR ''a'', CHR ''-'', CHR 0xFF]
       = Inr (map char_of [97..<256])"
  by (simp add: ParseCharset_def spec_ParseCharset_def writeRange_diverges byte_val_def
      isBadRange_def isRangeToken_def expandToken_def)

section \<open>The key generator\<close>

lemma fillBytes_ok:
  "(\<And>j. j < n \<Longrightarrow> \<exists>r. src (i + j) = Inr r) \<Longrightarrow>
   fillBytes src cs i n = Inr (map (\<lambda>j. cs ! (rawOf (src j) mod length cs)) [i..<i + n])"
proof (induction n arbitrary: i)
  case 0
  then show ?case by simp
next
  case (Suc n)
  from Suc.prems [of 0] obtain r where r: "src i = Inr r" by auto
  have "\<And>j. j < n \<Longrightarrow> \<exists>r. src (Suc i + j) = Inr r"
    using Suc.prems [of "Suc _"] by simp
  then have "fillBytes src cs (Suc i) n = Inr (map (\<lambda>j. cs ! (rawOf (src j) mod length cs)) [Suc i..<Suc i + n])"
    by (rule Suc.IH)
  moreover have "[i..<i + Suc n] = i # [Suc i..<Suc i + n]"
    by (simp add: upt_rec)
  ultimately show ?case using r
    by (simp add: rand_Int_def rawOf_def)
qed

lemma fillBytes_error:
  "fillBytes src cs i n = Inl e \<Longrightarrow> \<exists>j<n. src (i + j) = Inl e"
proof (induction n arbitrary: i)
  case 0
  then show ?case by simp
next
  case (Suc n)
  show ?case
  proof (cases "src i")
    case (Inl e')
    with Suc.prems have "e' = e" by (simp add: rand_Int_def)
    with Inl show ?thesis by (intro exI [of _ 0]) simp
  next
    case (Inr r)
    with Suc.prems have "fillBytes src cs (Suc i) n = Inl e"
      by (simp add: rand_Int_def split: sum.splits)
    from Suc.IH [OF this] obtain j where "j < n" "src (Suc i + j) = Inl e" by auto
    then show ?thesis by (intro exI [of _ "Suc j"]) simp
  qed
qed

lemma fillBytes_fails:
  "j < n \<Longrightarrow> src (i + j) = Inl e \<Longrightarrow> \<exists>e'. fillBytes src cs i n = Inl e'"
proof (induction n arbitrary: i j)
  case 0
  then show ?case by simp
next
  case (Suc n)
  show ?case
  proof (cases j)
    case 0
    with Suc.prems show ?thesis by (simp add: rand_Int_def)
  next
    case (Suc j')
    with Suc.prems have "j' < n" "src (Suc i + j') = Inl e" by simp_all
    from Suc.IH [OF this] obtain e' where "fillBytes src cs (Suc i) n = Inl e'" ..
    then show ?thesis by (simp split: sum.splits)
  qed
qed

lemma randomPart_length: "length (randomPart src alphabet n) = n"
  by (simp add: randomPart_def)

lemma randomPart_alphabet: "alphabet \<noteq> [] \<Longrightarrow> set (randomPart src alphabet n) \<subseteq> set alphabet"
  by (auto simp: randomPart_def)

lemma randomPart_single: "randomPart src [a] n = replicate n a"
  by (simp add: randomPart_def map_replicate_const)

text \<open>
  Claim C4. For a positive length and a non-empty alphabet: when the first \<open>length\<close> reads
  of the random source succeed, the key is the random part, preceded by the prefix and the
  separator (\<open>-\<close> when empty) if the prefix is non-empty; the random part has \<open>length\<close>
  characters, the \<open>j\<close>-th drawn from the alphabet by the \<open>j\<close>-th read; with the alphabet
  \<open>A\<close> it is \<open>length\<close> copies of \<open>A\<close>; and generation fails exactly when one of these
  reads fails, with that read's error.
\<close>

theorem C4_key_generation:
  assumes "0 < len" and "alphabet \<noteq> []"
  shows "((\<forall>j<nat len. \<exists>raw. src j = Inr raw) \<longrightarrow>
            GenerateLicenseKey src prefix len sep alphabet =
              Inr (if prefix = [] then randomPart src alphabet (nat len)
                   else prefix @ (if sep = [] then ''-'' else sep) @ randomPart src alphabet (nat len)))
       \<and> length (randomPart src alphabet (nat len)) = nat len
       \<and> set (randomPart src alphabet (nat len)) \<subseteq> set alphabet
       \<and> (alphabet = ''A'' \<longrightarrow> randomPart src alphabet (nat len) = replicate (nat len) CHR ''A'')
       \<and> (\<forall>err. GenerateLicenseKey src prefix len sep alphabet = Inl err \<longrightarrow>
              (\<exists>j<nat len. src j = Inl err))
       \<and> ((\<exists>j<nat len. \<exists>err. src j = Inl err) \<longrightarrow>
              (\<exists>err. GenerateLicenseKey src prefix len sep alphabet = Inl err))"
proof (intro conjI impI allI)
  assume "\<forall>j<nat len. \<exists>raw. src j = Inr raw"
  then have "fillBytes src alphabet 0 (nat len) = Inr (randomPart src alphabet (nat len))"
    using fillBytes_ok [of "nat len" src 0 alphabet] by (simp add: randomPart_def)
  then show "GenerateLicenseKey src prefix len sep alphabet =
              Inr (if prefix = [] then randomPart src alphabet (nat len)
                   else prefix @ (if sep = [] then ''-'' else sep) @ randomPart src alphabet (nat len))"
    using assms by (simp add: GenerateLicenseKey_def Let_def)
next
  show "length (randomPart src alphabet (nat len)) = nat len" by (rule randomPart_length)
next
  show "set (randomPart src alphabet (nat len)) \<subseteq> set alphabet"
    using assms(2) by (rule randomPart_alphabet)
next
  assume "alphabet = ''A''"
  then show "randomPart src alphabet (nat len) = replicate (nat len) CHR ''A''"
    by (simp add: randomPart_single)
next
  fix err assume "GenerateLicenseKey src prefix len sep alphabet = Inl err"
  then have "fillBytes src alphabet 0 (nat len) = Inl err"
    using assms by (simp add: GenerateLicenseKey_def Let_def split: sum.splits if_splits)
  from fillBytes_error [OF this] show "\<exists>j<nat len. src j = Inl err" by simp
next
  assume "\<exists>j<nat len. \<exists>err. src j = Inl err"
  then obtain j err where "j < nat len" "src (0 + j) = Inl err" by auto
  from fillBytes_fails [of j "nat len" src 0 err alphabet, OF this] obtain e' where "fillBytes src alphabet 0 (nat len) = Inl e'" ..
  then show "\<exists>err. GenerateLicenseKey src prefix len sep alphabet = Inl err"
    using assms by (simp add: GenerateLicenseKey_def Let_def)
qed

theorem C4_key_generation_witness:
  "GenerateLicenseKey (\<lambda>j. Inr (7 * j)) ''TEST'' 5 [] ''A'' = Inr ''TEST-AAAAA''
   \<and> (\<exists>err. GenerateLicenseKey (\<lambda>j. if j = 3 then Inl RandomSourceError else Inr j) ''TEST'' 5 ''_'' ''AB'' = Inl err)"
  using C4_key_generation [of 5 "''A''" "\<lambda>j. Inr (7 * j)" "''TEST''" "[]"]
    C4_key_generation [of 5 "''AB''" "\<lambda>j. if j = 3 then Inl RandomSourceError else Inr j" "''TEST''" "''_''"]
  by (simp add: numeral_eq_Suc)

section \<open>The check handler: status, key header and validation order\<close>

lemma handler_found:
  assumes "X_License_Key c \<noteq> []" and "GetLicenseByKey (X_License_Key c) = Inr license"
  shows "fst (CheckLicenseHandler lib GetLicenseByKey pk now c) =
           \<lparr>status = 200,
            body = JSON_H (checkResponse lib pk (X_License_Key c) license
                             (validate lib license now c)),
            calls = [CallGetLicenseByKey (X_License_Key c)]\<rparr>"
  using assms by (simp add: CheckLicenseHandler_def requireLicenseKey_def Let_def)

lemma checkResponse_valid:
  "checkResponse lib pk key license (v, r) ''valid'' = Some (JBool v)"
  by (simp add: checkResponse_def Let_def split: sum.split)

lemma checkResponse_reason:
  "checkResponse lib pk key license (v, r) ''reason'' =
     (if r = [] then None else Some (JString r))"
  by (simp add: checkResponse_def Let_def split: sum.split)

lemma checkResponse_token:
  "checkResponse lib pk key license (v, r) ''token'' =
     (if pk = [] then None
      else (case SignLicense lib pk key (ExpiresAt license) v (Features license) of
              Inl err \<Rightarrow> None | Inr token \<Rightarrow> Some (JToken token)))"
  by (simp add: checkResponse_def Let_def split: sum.split)

lemma field_found:
  assumes "X_License_Key c \<noteq> []" and "GetLicenseByKey (X_License_Key c) = Inr license"
  shows "field (fst (CheckLicenseHandler lib GetLicenseByKey pk now c)) k =
           checkResponse lib pk (X_License_Key c) license (validate lib license now c) k"
  using assms by (simp add: handler_found field_def)

lemma validate_revoked:
  "Status license = LicenseStatusRevoked \<Longrightarrow>
   validate lib license now c = (False, ''License is revoked'')"
  by (simp add: validate_def checkStatus_def checkIP_def checkVersion_def checkFeature_def)

lemma validate_expired:
  "Status license \<noteq> LicenseStatusRevoked \<Longrightarrow> ExpiresAt license = Some t \<Longrightarrow> t < now \<Longrightarrow>
   validate lib license now c = (False, ''License has expired'')"
  by (simp add: validate_def checkStatus_def checkIP_def checkVersion_def checkFeature_def)

lemma active_not_revoked: "LicenseStatusActive \<noteq> LicenseStatusRevoked"
  by (simp add: LicenseStatusActive_def LicenseStatusRevoked_def)

text \<open>
  Claim C2. The status is checked before the expiry and the expiry before the caller's
  address: a revoked license reports "License is revoked" whatever its expiry, and an
  active license whose expiry lies strictly before now reports "License has expired"
  whatever the caller's address and the allow-lists are.
\<close>

theorem C2_validation_order:
  assumes "X_License_Key c \<noteq> []" and "GetLicenseByKey (X_License_Key c) = Inr license"
  shows "(Status license = LicenseStatusRevoked \<longrightarrow>
            field (fst (CheckLicenseHandler lib GetLicenseByKey pk now c)) ''valid''
              = Some (JBool False) \<and>
            field (fst (CheckLicenseHandler lib GetLicenseByKey pk now c)) ''reason''
              = Some (JString ''License is revoked''))
       \<and> (Status license = LicenseStatusActive \<and> (\<exists>t. ExpiresAt license = Some t \<and> t < now) \<longrightarrow>
            field (fst (CheckLicenseHandler lib GetLicenseByKey pk now c)) ''valid''
              = Some (JBool False) \<and>
            field (fst (CheckLicenseHandler lib GetLicenseByKey pk now c)) ''reason''
              = Some (JString ''License has expired''))"
  using active_not_revoked assms
  by (auto simp: field_found validate_revoked validate_expired
      checkResponse_valid checkResponse_reason)

theorem C2_validation_order_witness:
  "field (fst (CheckLicenseHandler ipv4lib
                 (\<lambda>k. Inr (exampleLicense\<lparr>Status := LicenseStatusRevoked, ExpiresAt := Some 5\<rparr>))
                 [] 10 exampleCheck)) ''reason''
     = Some (JString ''License is revoked'')
   \<and> field (fst (CheckLicenseHandler ipv4lib
                 (\<lambda>k. Inr (exampleLicense\<lparr>ExpiresAt := Some 5, AllowedIPs := [''10.0.0.1'']\<rparr>))
                 [] 10 exampleCheck)) ''reason''
     = Some (JString ''License has expired'')"
  using
    C2_validation_order [of exampleCheck
      "\<lambda>k. Inr (exampleLicense\<lparr>Status := LicenseStatusRevoked, ExpiresAt := Some 5\<rparr>)"
      "exampleLicense\<lparr>Status := LicenseStatusRevoked, ExpiresAt := Some 5\<rparr>" ipv4lib "[]" 10]
    C2_validation_order [of exampleCheck
      "\<lambda>k. Inr (exampleLicense\<lparr>ExpiresAt := Some 5, AllowedIPs := [''10.0.0.1'']\<rparr>)"
      "exampleLicense\<lparr>ExpiresAt := Some 5, AllowedIPs := [''10.0.0.1'']\<rparr>" ipv4lib "[]" 10]
  by (simp add: exampleCheck_def exampleLicense_def)

text \<open>
  Claim C10. A check request whose \<open>X-License-Key\<close> header is empty or absent is answered
  with status 400 and the error "X-License-Key header is required"; no store is called,
  so no license is looked up, and the answer depends on nothing else in the request.
\<close>

theorem C10_missing_key:
  assumes "X_License_Key c = []"
  shows "fst (CheckLicenseHandler lib GetLicenseByKey pk now c) =
           \<lparr>status = 400,
            body = JSON_H [''error'' \<mapsto> JString ''X-License-Key header is required''],
            calls = []\<rparr>"
  using assms by (simp add: CheckLicenseHandler_def requireLicenseKey_def Let_def)

theorem C10_missing_key_witness:
  "fst (CheckLicenseHandler ipv4lib (\<lambda>k. Inr exampleLicense) [] 10
          (exampleCheck\<lparr>X_License_Key := []\<rparr>)) =
     \<lparr>status = 400,
      body = JSON_H [''error'' \<mapsto> JString ''X-License-Key header is required''],
      calls = []\<rparr>"
  using C10_missing_key [of "exampleCheck\<lparr>X_License_Key := []\<rparr>" ipv4lib
      "\<lambda>k. Inr exampleLicense" "[]" 10]
  by simp

lemma checkStatus_reason: "fst (checkStatus license now) \<Longrightarrow> snd (checkStatus license now) = []"
  by (simp add: checkStatus_def split: if_splits)

lemma checkIP_reason:
  "(fst vr \<Longrightarrow> snd vr = []) \<Longrightarrow> fst (checkIP lib license ip vr) \<Longrightarrow> snd (checkIP lib license ip vr) = []"
  by (cases vr) (auto simp: checkIP_def Let_def split: if_splits option.splits)

lemma validate_unconstrained:
  "validate lib license now (c\<lparr>q_version := [], q_feature := []\<rparr>) =
     checkIP lib license (ClientIP c) (checkStatus license now)"
  by (simp add: validate_def checkVersion_def checkFeature_def split: prod.split)

lemma validate_constrained:
  assumes "fst (validate lib license now (c\<lparr>q_version := [], q_feature := []\<rparr>))"
  shows "validate lib license now c =
           checkFeature license (q_feature c) (checkVersion license (q_version c) (True, []))"
proof -
  let ?vr = "checkIP lib license (ClientIP c) (checkStatus license now)"
  have "fst ?vr" using assms by (simp add: validate_unconstrained)
  moreover from this have "snd ?vr = []"
    by (rule checkIP_reason [rotated]) (rule checkStatus_reason)
  ultimately have "?vr = (True, [])" by (cases ?vr) simp
  then show ?thesis by (simp add: validate_def)
qed

text \<open>
  Claim C7. On a license that is valid without constraints: a request with a \<open>version\<close>
  (and a \<open>feature\<close> that is absent or enabled) is valid iff the license's releases are
  empty or contain the version verbatim, and fails with "License not valid for version"
  followed by the version; a request with a \<open>feature\<close> (and a \<open>version\<close> that is absent
  or allowed) is valid iff the license's features contain the code verbatim, and fails
  with "Feature not enabled: " followed by the code, so always when the list is empty.
\<close>

theorem C7_version_and_feature:
  assumes "X_License_Key c \<noteq> []" and "GetLicenseByKey (X_License_Key c) = Inr license"
    and "fst (validate lib license now (c\<lparr>q_version := [], q_feature := []\<rparr>))"
  shows "(q_version c \<noteq> [] \<and> (q_feature c = [] \<or> q_feature c \<in> set (Features license)) \<longrightarrow>
            field (fst (CheckLicenseHandler lib GetLicenseByKey pk now c)) ''valid''
              = Some (JBool (Releases license = [] \<or> q_version c \<in> set (Releases license))) \<and>
            field (fst (CheckLicenseHandler lib GetLicenseByKey pk now c)) ''reason''
              = (if Releases license = [] \<or> q_version c \<in> set (Releases license) then None
                 else Some (JString (''License not valid for version '' @ q_version c))))
       \<and> (q_feature c \<noteq> [] \<and> (q_version c = [] \<or> Releases license = []
              \<or> q_version c \<in> set (Releases license)) \<longrightarrow>
            field (fst (CheckLicenseHandler lib GetLicenseByKey pk now c)) ''valid''
              = Some (JBool (q_feature c \<in> set (Features license))) \<and>
            field (fst (CheckLicenseHandler lib GetLicenseByKey pk now c)) ''reason''
              = (if q_feature c \<in> set (Features license) then None
                 else Some (JString (''Feature not enabled: '' @ q_feature c))))"
proof -
  have v: "validate lib license now c =
           checkFeature license (q_feature c) (checkVersion license (q_version c) (True, []))"
    using assms(3) by (rule validate_constrained)
  obtain a r where ar: "validate lib license now c = (a, r)" by (cases "validate lib license now c")
  show ?thesis
    using assms(1,2) ar v
    by (auto simp: field_found checkResponse_valid checkResponse_reason
        checkVersion_def checkFeature_def Let_def split: if_splits)
qed

theorem C7_version_and_feature_witness:
  "field (fst (CheckLicenseHandler ipv4lib (\<lambda>k. Inr (exampleLicense\<lparr>Releases := [''1.0.0'']\<rparr>)) [] 10
                 (exampleCheck\<lparr>q_version := ''2.0.0''\<rparr>))) ''reason''
     = Some (JString ''License not valid for version 2.0.0'')
   \<and> field (fst (CheckLicenseHandler ipv4lib (\<lambda>k. Inr exampleLicense) [] 10
                 (exampleCheck\<lparr>q_feature := ''sso''\<rparr>))) ''reason''
     = Some (JString ''Feature not enabled: sso'')
   \<and> field (fst (CheckLicenseHandler ipv4lib (\<lambda>k. Inr (exampleLicense\<lparr>Features := [''sso'']\<rparr>)) [] 10
                 (exampleCheck\<lparr>q_feature := ''sso''\<rparr>))) ''valid''
     = Some (JBool True)"
  using
    C7_version_and_feature [of "exampleCheck\<lparr>q_version := ''2.0.0''\<rparr>"
      "\<lambda>k. Inr (exampleLicense\<lparr>Releases := [''1.0.0'']\<rparr>)"
      "exampleLicense\<lparr>Releases := [''1.0.0'']\<rparr>" ipv4lib 10 "[]"]
    C7_version_and_feature [of "exampleCheck\<lparr>q_feature := ''sso''\<rparr>"
      "\<lambda>k. Inr exampleLicense" exampleLicense ipv4lib 10 "[]"]
    C7_version_and_feature [of "exampleCheck\<lparr>q_feature := ''sso''\<rparr>"
      "\<lambda>k. Inr (exampleLicense\<lparr>Features := [''sso'']\<rparr>)"
      "exampleLicense\<lparr>Features := [''sso'']\<rparr>" ipv4lib 10 "[]"]
  by (simp add: exampleCheck_def exampleLicense_def validate_def checkStatus_def checkIP_def
      checkVersion_def checkFeature_def LicenseStatusActive_def LicenseStatusRevoked_def)

section \<open>The check and the allow-list\<close>

lemma check_never_updates:
  "calls (fst (CheckLicenseHandler lib GetLicenseByKey pk now c)) =
     (if X_License_Key c = [] then [] else [CallGetLicenseByKey (X_License_Key c)])"
  by (simp add: CheckLicenseHandler_def requireLicenseKey_def Let_def split: sum.split)

lemma spec_checkIP_no_auto:
  "\<not> AutoAllowedIP license \<Longrightarrow>
   spec_checkIP lib license ip vr = (checkIP lib (License.truncate license) ip vr, None)"
  by (cases vr)
    (auto simp: spec_checkIP_def checkIP_def License.truncate_def Let_def split: option.splits)







section \<open>The offline token signer\<close>

lemma SignLicense_claims:
  assumes "SignLicense lib pk key exp valid features = Inr tok"
  shows "jwt_claims tok ''sub'' = Some (CString key)"
    and "jwt_claims tok ''iss'' = Some (CString ''clortho'')"
    and "jwt_claims tok ''valid'' = Some (CBool valid)"
    and "jwt_claims tok ''features'' = Some (CStrings features)"
    and "jwt_claims tok ''exp'' = map_option (\<lambda>t. CInt (Unix t)) exp"
  using assms
  by (auto simp: SignLicense_def Let_def split: if_splits option.splits)

lemma SignLicense_fails_iff:
  "(\<exists>err. SignLicense lib pk key exp valid features = Inl err) = keyUnusable lib pk"
  by (auto simp: SignLicense_def keyUnusable_def Let_def split: if_splits option.splits)

text \<open>
  Claim C8. A token that \<open>SignLicense\<close> produces states \<open>sub\<close> = the license key, \<open>iss\<close> =
  "clortho", \<open>valid\<close> = the outcome, \<open>features\<close> = the features list, and \<open>exp\<close> exactly
  when an expiry is set (its Unix seconds). Signing fails exactly when the key material is
  absent or malformed; the check response then has status 200, carries \<open>valid\<close> and has no
  \<open>token\<close> key.
\<close>

theorem C8_signing:
  "(\<forall>tok. SignLicense lib pk key exp valid features = Inr tok \<longrightarrow>
       jwt_claims tok ''sub'' = Some (CString key) \<and>
       jwt_claims tok ''iss'' = Some (CString ''clortho'') \<and>
       jwt_claims tok ''valid'' = Some (CBool valid) \<and>
       jwt_claims tok ''features'' = Some (CStrings features) \<and>
       jwt_claims tok ''exp'' = map_option (\<lambda>t. CInt (Unix t)) exp)
   \<and> ((\<exists>err. SignLicense lib pk key exp valid features = Inl err) = keyUnusable lib pk)
   \<and> (keyUnusable lib pk \<and> X_License_Key c \<noteq> [] \<and> GetLicenseByKey (X_License_Key c) = Inr license \<longrightarrow>
        status (fst (CheckLicenseHandler lib GetLicenseByKey pk now c)) = 200 \<and>
        field (fst (CheckLicenseHandler lib GetLicenseByKey pk now c)) ''token'' = None \<and>
        field (fst (CheckLicenseHandler lib GetLicenseByKey pk now c)) ''valid''
          = Some (JBool (fst (validate lib license now c))))"
proof (intro conjI allI impI)
  fix tok assume "SignLicense lib pk key exp valid features = Inr tok"
  note SignLicense_claims [OF this]
  then show "jwt_claims tok ''sub'' = Some (CString key)"
    "jwt_claims tok ''iss'' = Some (CString ''clortho'')"
    "jwt_claims tok ''valid'' = Some (CBool valid)"
    "jwt_claims tok ''features'' = Some (CStrings features)"
    "jwt_claims tok ''exp'' = map_option (\<lambda>t. CInt (Unix t)) exp"
    by simp_all
next
  show "(\<exists>err. SignLicense lib pk key exp valid features = Inl err) = keyUnusable lib pk"
    by (rule SignLicense_fails_iff)
next
  assume a: "keyUnusable lib pk \<and> X_License_Key c \<noteq> [] \<and> GetLicenseByKey (X_License_Key c) = Inr license"
  obtain v r where vr: "validate lib license now c = (v, r)" by (cases "validate lib license now c")
  from a have "\<exists>err. SignLicense lib pk (X_License_Key c) (ExpiresAt license) v (Features license) = Inl err"
    by (simp add: SignLicense_fails_iff)
  then obtain err where e: "SignLicense lib pk (X_License_Key c) (ExpiresAt license) v (Features license) = Inl err" ..
  show "status (fst (CheckLicenseHandler lib GetLicenseByKey pk now c)) = 200"
    using a by (simp add: handler_found)
  show "field (fst (CheckLicenseHandler lib GetLicenseByKey pk now c)) ''token'' = None"
    using a vr e by (simp add: field_found checkResponse_token)
  show "field (fst (CheckLicenseHandler lib GetLicenseByKey pk now c)) ''valid'' = Some (JBool (fst (validate lib license now c)))"
    using a vr by (simp add: field_found checkResponse_valid)
qed

lemma exampleKey_usable: "\<not> keyUnusable ipv4lib exampleKey"
  by code_simp

lemma short_key_unusable: "keyUnusable ipv4lib ''aGVsbG8=''"
  by code_simp

theorem C8_signing_witness:
  "(\<exists>tok. SignLicense ipv4lib exampleKey ''TEST-AUTO-ADD'' (Some 1500000000) True [''sso''] = Inr tok
          \<and> jwt_claims tok ''sub'' = Some (CString ''TEST-AUTO-ADD'')
          \<and> jwt_claims tok ''exp'' = Some (CInt 1))
   \<and> keyUnusable ipv4lib ''aGVsbG8=''
   \<and> status (fst (CheckLicenseHandler ipv4lib (\<lambda>k. Inr exampleLicense) ''aGVsbG8='' 10 exampleCheck)) = 200
   \<and> field (fst (CheckLicenseHandler ipv4lib (\<lambda>k. Inr exampleLicense) ''aGVsbG8='' 10 exampleCheck)) ''token'' = None"
proof -
  note unusable = short_key_unusable and usable = exampleKey_usable
  note main = C8_signing [where lib = ipv4lib and pk = exampleKey and key = "''TEST-AUTO-ADD''"
      and exp = "Some 1500000000" and valid = True and features = "[''sso'']"]
  have "\<exists>tok. SignLicense ipv4lib exampleKey ''TEST-AUTO-ADD'' (Some 1500000000) True [''sso''] = Inr tok"
    using main usable
    by (cases "SignLicense ipv4lib exampleKey ''TEST-AUTO-ADD'' (Some 1500000000) True [''sso'']") auto
  then obtain tok where tok: "SignLicense ipv4lib exampleKey ''TEST-AUTO-ADD'' (Some 1500000000) True [''sso''] = Inr tok" ..
  with main have "jwt_claims tok ''sub'' = Some (CString ''TEST-AUTO-ADD'')"
    and "jwt_claims tok ''exp'' = Some (CInt 1)"
    by (simp_all add: Unix_def)
  with tok have first: "\<exists>tok. SignLicense ipv4lib exampleKey ''TEST-AUTO-ADD'' (Some 1500000000) True [''sso''] = Inr tok
          \<and> jwt_claims tok ''sub'' = Some (CString ''TEST-AUTO-ADD'')
          \<and> jwt_claims tok ''exp'' = Some (CInt 1)" by blast
  have "status (fst (CheckLicenseHandler ipv4lib (\<lambda>k. Inr exampleLicense) ''aGVsbG8='' 10 exampleCheck)) = 200
   \<and> field (fst (CheckLicenseHandler ipv4lib (\<lambda>k. Inr exampleLicense) ''aGVsbG8='' 10 exampleCheck)) ''token'' = None"
    using C8_signing [where lib = ipv4lib and pk = "''aGVsbG8=''" and c = exampleCheck
        and GetLicenseByKey = "\<lambda>k. Inr exampleLicense" and license = exampleLicense and now = 10]
      unusable
    by (simp add: exampleCheck_def)
  with first unusable show ?thesis by blast
qed

section \<open>License generation: settings and expiry input\<close>

lemma GenerateLicenseKey_separator:
  "GenerateLicenseKey src prefix len sep charset =
   GenerateLicenseKey src prefix len (if sep = [] then ''-'' else sep) charset"
  by (simp add: GenerateLicenseKey_def)

text \<open>
  Claim C5, as amended. The request carries overrides for the prefix and the length only.
  The prefix is the request's when non-empty, else the product's when non-empty, else the
  group's when non-empty, else "LICENSE". The length is the first non-zero value among the
  request's, the product's and the group's, and 12 when that value is not positive. The
  separator is the product's when it is neither empty nor \<open>-\<close>, else the group's when
  non-empty, else \<open>-\<close> (an empty separator is read as \<open>-\<close> by the key generator). The
  charset is the product's when non-empty, else the group's, and the empty charset parses
  to the default alphabet.
\<close>

theorem C5_settings_precedence:
  "s_prefix (resolveSettings req product grp) =
     (if r_Prefix req \<noteq> [] then r_Prefix req
      else if p_LicensePrefix product \<noteq> [] then p_LicensePrefix product
      else (case grp of
              Some g \<Rightarrow> if g_LicensePrefix g \<noteq> [] then g_LicensePrefix g else ''LICENSE''
            | None \<Rightarrow> ''LICENSE''))
   \<and> s_length (resolveSettings req product grp) =
     (let len = (if r_Length req \<noteq> 0 then r_Length req
                 else if p_LicenseLength product \<noteq> 0 then p_LicenseLength product
                 else (case grp of Some g \<Rightarrow> g_LicenseLength g | None \<Rightarrow> 0))
      in if 0 < len then len else 12)
   \<and> (if s_separator (resolveSettings req product grp) = [] then ''-''
       else s_separator (resolveSettings req product grp)) =
     (if p_LicenseSeparator product \<noteq> [] \<and> p_LicenseSeparator product \<noteq> ''-''
      then p_LicenseSeparator product
      else (case grp of
              Some g \<Rightarrow> if g_LicenseSeparator g \<noteq> [] then g_LicenseSeparator g else ''-''
            | None \<Rightarrow> ''-''))
   \<and> GenerateLicenseKey src prefix len (s_separator (resolveSettings req product grp)) charset =
     GenerateLicenseKey src prefix len
       (if s_separator (resolveSettings req product grp) = [] then ''-''
        else s_separator (resolveSettings req product grp)) charset
   \<and> s_charsetRaw (resolveSettings req product grp) =
     (if p_LicenseCharset product \<noteq> [] then p_LicenseCharset product
      else (case grp of Some g \<Rightarrow> g_LicenseCharset g | None \<Rightarrow> []))
   \<and> ParseCharset [] = Some (Inr defaultCharset)"
proof (intro conjI)
  show "GenerateLicenseKey src prefix len (s_separator (resolveSettings req product grp)) charset =
     GenerateLicenseKey src prefix len
       (if s_separator (resolveSettings req product grp) = [] then ''-''
        else s_separator (resolveSettings req product grp)) charset"
    by (rule GenerateLicenseKey_separator)
qed (auto simp: resolveSettings_def Let_def ParseCharset_def split: option.splits)

theorem C5_settings_precedence_witness:
  "s_prefix (resolveSettings exampleRequest (exampleProduct\<lparr>p_LicensePrefix := []\<rparr>) (Some exampleGroup)) = ''SUITE''
   \<and> s_length (resolveSettings exampleRequest (exampleProduct\<lparr>p_LicensePrefix := []\<rparr>) (Some exampleGroup)) = 20
   \<and> s_separator (resolveSettings exampleRequest (exampleProduct\<lparr>p_LicensePrefix := []\<rparr>) (Some exampleGroup)) = ''_''
   \<and> s_charsetRaw (resolveSettings exampleRequest (exampleProduct\<lparr>p_LicensePrefix := []\<rparr>) (Some exampleGroup)) = ''A-F,0-9''"
  using C5_settings_precedence [where req = exampleRequest
      and product = "exampleProduct\<lparr>p_LicensePrefix := []\<rparr>" and grp = "Some exampleGroup"
      and src = "\<lambda>j. Inr j" and prefix = "[]" and len = 1 and charset = "[]"]
  by (simp add: exampleRequest_def exampleProduct_def exampleGroup_def resolveSettings_def)

text \<open>
  The claim as stated fails for a negative length in the request: with \<open>length = -5\<close> and a
  product length of 20 the handler uses 12, where the stated precedence gives \<open>-5\<close>.
\<close>

theorem C5_negative_length_counterexample:
  "s_length (resolveSettings (exampleRequest\<lparr>r_Length := - 5\<rparr>) exampleProduct None) = 12
   \<and> spec_length (- 5) (p_LicenseLength exampleProduct) None = - 5"
  by (simp add: resolveSettings_def spec_length_def exampleRequest_def exampleProduct_def)

lemma Atoi_isIntegerText: "Atoi s = Inr n \<Longrightarrow> isIntegerText s"
  by (simp add: Atoi_def isIntegerText_def Let_def split: if_splits)

lemma parsed_wellFormed:
  assumes "ParseExpirationDuration addDate now d = Inr t"
  shows "wellFormedDuration d"
proof -
  from assms have len: "2 \<le> length d"
    by (simp add: ParseExpirationDuration_def split: if_splits)
  show ?thesis
  proof (cases "HasSuffix d ''mo''")
    case True
    with assms len obtain n where "Atoi (take (length d - 2) d) = Inr n"
      by (auto simp: ParseExpirationDuration_def Let_def split: sum.splits)
    then have "isIntegerText (take (length d - 2) d)" by (rule Atoi_isIntegerText)
    moreover have "length ''mo'' = 2" by simp
    ultimately have "isIntegerText (take (length d - length ''mo'') d)" by metis
    with True show ?thesis
      unfolding wellFormedDuration_def durationUnits_def list_ex_iff
      by (simp del: HasSuffix.simps)
  next
    case False
    let ?u = "drop (length d - 1) d"
    from assms len False obtain n where n: "Atoi (take (length d - 1) d) = Inr n"
      and u: "?u = ''m'' \<or> ?u = ''h'' \<or> ?u = ''d'' \<or> ?u = ''w'' \<or> ?u = ''mo'' \<or> ?u = ''y''"
      by (auto simp: ParseExpirationDuration_def Let_def split: sum.splits if_splits)
    have lu: "length ?u = 1" using len by simp
    have "?u \<noteq> ''mo''"
    proof
      assume "?u = ''mo''"
      then have "length ?u = length ''mo''" by (rule arg_cong)
      with lu show False by simp
    qed
    with u have u': "?u = ''m'' \<or> ?u = ''h'' \<or> ?u = ''d'' \<or> ?u = ''w'' \<or> ?u = ''y''" by blast
    have suffix: "HasSuffix d ?u" using len by simp
    have int: "isIntegerText (take (length d - length ?u) d)"
      using n lu by (simp add: Atoi_isIntegerText)
    from u' suffix int show ?thesis
      unfolding wellFormedDuration_def durationUnits_def list_ex_iff
      by (elim disjE) (simp_all del: HasSuffix.simps)
  qed
qed

lemma malformed_rejected:
  "\<not> wellFormedDuration d \<Longrightarrow> \<exists>err. ParseExpirationDuration addDate now d = Inl err"
  using parsed_wellFormed [of addDate now d]
  by (cases "ParseExpirationDuration addDate now d") auto

text \<open>
  Claim C6. A generate request with both \<open>expires_at\<close> and \<open>duration\<close> set, or with a
  \<open>duration\<close> that is set and not of the form \<open>Nm\<close>, \<open>Nh\<close>, \<open>Nd\<close>, \<open>Nw\<close>, \<open>Nmo\<close> or \<open>Ny\<close>
  with an integer \<open>N\<close>, is answered with status 400 and an error message that names the
  fault; the handler returns before any store is called, so no license is created.
\<close>

theorem C6_bad_expiry_input_rejected:
  assumes "(r_ExpiresAt req \<noteq> None \<and> r_Duration req \<noteq> [])
           \<or> (r_Duration req \<noteq> [] \<and> \<not> wellFormedDuration (r_Duration req))"
  shows "\<exists>resp. GenerateLicenseHandler env req = Some (resp, None)
           \<and> status resp = 400 \<and> calls resp = []
           \<and> (field resp ''error'' = Some (JString ''Cannot specify both expires_at and duration'')
              \<or> (\<exists>err. field resp ''error''
                          = Some (JSprintf ''Invalid duration format: %v'' (DurationErr err))))"
proof (cases "r_ExpiresAt req \<noteq> None \<and> r_Duration req \<noteq> []")
  case True
  then show ?thesis
    by (simp add: GenerateLicenseHandler_def resolveExpiry_def errorResponse_def field_def)
next
  case False
  with assms have d: "r_Duration req \<noteq> []" "\<not> wellFormedDuration (r_Duration req)"
    and e: "r_ExpiresAt req = None" by auto
  from malformed_rejected [OF d(2)] obtain err
    where "ParseExpirationDuration (AddDate env) (Now env) (r_Duration req) = Inl err" ..
  with d e show ?thesis
    by (simp add: GenerateLicenseHandler_def resolveExpiry_def errorResponse_def field_def)
qed

theorem C6_bad_expiry_input_rejected_witness:
  "(\<exists>resp. GenerateLicenseHandler exampleEnv (exampleRequest\<lparr>r_ExpiresAt := Some 99, r_Duration := ''3d''\<rparr>)
             = Some (resp, None) \<and> status resp = 400 \<and> calls resp = [])
   \<and> (\<exists>resp. GenerateLicenseHandler exampleEnv (exampleRequest\<lparr>r_Duration := ''3x''\<rparr>)
             = Some (resp, None) \<and> status resp = 400 \<and> calls resp = [])"
  using C6_bad_expiry_input_rejected [of "exampleRequest\<lparr>r_ExpiresAt := Some 99, r_Duration := ''3d''\<rparr>" exampleEnv]
    C6_bad_expiry_input_rejected [of "exampleRequest\<lparr>r_Duration := ''3x''\<rparr>" exampleEnv]
  by (auto simp: exampleRequest_def wellFormedDuration_def durationUnits_def isIntegerText_def isDigit_def byte_val_def)

section \<open>The rate-limit middleware\<close>

lemma GetLimiter_limiter:
  "fst (GetLimiter lib now rl ip) =
     (case fst (lru_Get lib (ips rl) now ip) of
        Some limiter \<Rightarrow> limiter
      | None \<Rightarrow> NewLimiter lib (rl_r rl) (rl_b rl))"
  by (simp add: GetLimiter_def Let_def split: prod.split option.split)

text \<open>
  Claim C9. With the limiter disabled the handler passes every request on and keeps no
  state. With it enabled, a request is passed on when \<open>Allow\<close> grants a token from the
  limiter of the request's own client IP, and is otherwise aborted with status 429; that
  limiter is the one the cache holds for the IP, or a new one with the configured rate and
  burst when the cache holds none.
\<close>

theorem C9_rate_limit:
  "(\<not> Enabled cfg \<longrightarrow>
      rateLimitHandler lib (RateLimitMiddleware lib cfg) now ip = (Next, None))
   \<and> (Enabled cfg \<longrightarrow> RateLimitMiddleware lib cfg = Some (NewRateLimiter lib cfg))
   \<and> fst (rateLimitHandler lib (Some rl) now ip) =
       (if fst (Allow lib now (fst (GetLimiter lib now rl ip))) then Next
        else Abort 429 (JSON_H [''error'' \<mapsto> JString ''Too many requests'']))
   \<and> snd (rateLimitHandler lib (Some rl) now ip) \<noteq> None
   \<and> fst (GetLimiter lib now rl ip) =
       (case fst (lru_Get lib (ips rl) now ip) of
          Some limiter \<Rightarrow> limiter
        | None \<Rightarrow> NewLimiter lib (rl_r rl) (rl_b rl))"
proof (intro conjI impI)
  show "fst (GetLimiter lib now rl ip) =
       (case fst (lru_Get lib (ips rl) now ip) of
          Some limiter \<Rightarrow> limiter
        | None \<Rightarrow> NewLimiter lib (rl_r rl) (rl_b rl))"
    by (rule GetLimiter_limiter)
qed (simp_all add: rateLimitHandler_def RateLimitMiddleware_def Let_def split: prod.split)

theorem C9_rate_limit_witness:
  "rateLimitHandler bucketlib (RateLimitMiddleware bucketlib (exampleConfig\<lparr>Enabled := False\<rparr>)) 10 ''192.168.1.100'' = (Next, None)
   \<and> fst (rateLimitHandler bucketlib (RateLimitMiddleware bucketlib exampleConfig) 10 ''192.168.1.100'') = Next
   \<and> fst (rateLimitHandler bucketlib
            (snd (rateLimitHandler bucketlib (RateLimitMiddleware bucketlib exampleConfig) 10 ''192.168.1.100''))
            11 ''192.168.1.100'')
       = Abort 429 (JSON_H [''error'' \<mapsto> JString ''Too many requests''])
   \<and> fst (rateLimitHandler bucketlib
            (snd (rateLimitHandler bucketlib (RateLimitMiddleware bucketlib exampleConfig) 10 ''192.168.1.100''))
            11 ''10.0.0.1'')
       = Next"
  using C9_rate_limit [of "exampleConfig\<lparr>Enabled := False\<rparr>" bucketlib 10 "''192.168.1.100''"]
    C9_rate_limit [of exampleConfig bucketlib 10 "''192.168.1.100''" "NewRateLimiter bucketlib exampleConfig"]
    C9_rate_limit [of exampleConfig bucketlib 11 "''192.168.1.100''"
      "\<lparr>ips = [(''192.168.1.100'', 0)], rl_r = 5, rl_b = 1, enabled = True\<rparr>"]
    C9_rate_limit [of exampleConfig bucketlib 11 "''10.0.0.1''"
      "\<lparr>ips = [(''192.168.1.100'', 0)], rl_r = 5, rl_b = 1, enabled = True\<rparr>"]
  by (simp add: exampleConfig_def bucketlib_def rateLimitHandler_def RateLimitMiddleware_def
      NewRateLimiter_def GetLimiter_def Let_def)

end
